theory Spec2Isabelle
  imports Complex_Main "HOL-Library.Sublist"
begin

section \<open>Electricity tariff engine: calculator.py and the inversion helper of app.py\<close>

text \<open>
  Python's \<open>float\<close> amounts are modelled as exact \<^typ>\<open>real\<close> numbers: every
  statement below is about the arithmetic the source writes down, not about the rounding
  of IEEE doubles. Strings are \<^typ>\<open>string\<close>, dictionaries are maps, and every
  \<open>raise\<close> is an \<open>Inl\<close> value of a result type.
\<close>

subsection \<open>Constants\<close>

definition RES_LIFELINE_MAX :: real where "RES_LIFELINE_MAX = 30.0"
definition BLOCK_300 :: real where "BLOCK_300 = 300.0"
definition LEVY_RATE :: real where "LEVY_RATE = 0.05"
definition TAX_RATE :: real where "TAX_RATE = 0.20"

subsection \<open>Tariff data\<close>

text \<open>
  \<open>TARIFFS\<close> is a dictionary from the year to a dictionary with the two keys
  \<open>"rates"\<close> and \<open>"service"\<close>, each a dictionary from a name to a number.
\<close>

type_synonym price_table = "string \<rightharpoonup> real"

definition rates_2025 :: price_table where
  "rates_2025 =
    [''RES_LIFELINE'' \<mapsto> 80.4389 / 100,
     ''RES_B1'' \<mapsto> 182.2442 / 100,
     ''RES_B2'' \<mapsto> 240.8059 / 100,
     ''NONRES_B1'' \<mapsto> 164.5377 / 100,
     ''NONRES_B2'' \<mapsto> 204.4809 / 100,
     ''SLT_LV'' \<mapsto> 245.5597 / 100,
     ''SLT_MV1'' \<mapsto> 196.0119 / 100,
     ''SLT_MV2'' \<mapsto> 127.8861 / 100,
     ''SLT_HV'' \<mapsto> 196.0119 / 100]"

definition service_2025 :: price_table where
  "service_2025 =
    [''Residential (Lifeline)'' \<mapsto> 2.13,
     ''Residential (Other)'' \<mapsto> 10.7301,
     ''Non-Residential'' \<mapsto> 12.428,
     ''SLT'' \<mapsto> 500.00]"

definition rates_2026 :: price_table where
  "rates_2026 =
    [''RES_LIFELINE'' \<mapsto> 88.3739 / 100,
     ''RES_B1'' \<mapsto> 200.2218 / 100,
     ''RES_B2'' \<mapsto> 264.5604 / 100,
     ''NONRES_B1'' \<mapsto> 180.7687 / 100,
     ''NONRES_B2'' \<mapsto> 224.6521 / 100,
     ''SLT_LV'' \<mapsto> 269.7832 / 100,
     ''SLT_MV1'' \<mapsto> 215.3477 / 100,
     ''SLT_MV2'' \<mapsto> 134.2804 / 100,
     ''SLT_HV'' \<mapsto> 215.3477 / 100]"

definition service_2026 :: price_table where
  "service_2026 =
    [''Residential (Lifeline)'' \<mapsto> 2.13,
     ''Residential (Other)'' \<mapsto> 10.730886,
     ''Non-Residential'' \<mapsto> 12.428245,
     ''SLT'' \<mapsto> 500.00]"

definition TARIFFS :: "string \<rightharpoonup> (string \<rightharpoonup> price_table)" where
  "TARIFFS =
    [''2025'' \<mapsto> [''rates'' \<mapsto> rates_2025, ''service'' \<mapsto> service_2025],
     ''2026'' \<mapsto> [''rates'' \<mapsto> rates_2026, ''service'' \<mapsto> service_2026]]"

subsection \<open>Data models\<close>

record BillLine =
  label :: string
  amount :: real

record BillResult =
  year :: string
  category :: string
  kwh :: real
  energy_charge :: real
  service_charge :: real
  levy :: real
  tax :: real
  total :: real
  breakdown :: "BillLine list"

subsection \<open>Errors\<close>

text \<open>
  The exceptions of the two files, each with its message. \<open>KeyError\<close> is what a
  dictionary subscript raises on a missing key.
\<close>

datatype error = ValueError string | RuntimeError string | KeyError string

definition getitem :: "(string \<rightharpoonup> 'a) \<Rightarrow> string \<Rightarrow> error + 'a" where
  "getitem d key = (case d key of None \<Rightarrow> Inl (KeyError key) | Some v \<Rightarrow> Inr v)"

definition and_then :: "error + 'a \<Rightarrow> ('a \<Rightarrow> error + 'b) \<Rightarrow> error + 'b" where
  "and_then m f = (case m of Inl e \<Rightarrow> Inl e | Inr x \<Rightarrow> f x)"

subsection \<open>Helpers\<close>

definition is_taxable :: "string \<Rightarrow> bool" where
  "is_taxable cat = (\<not> prefix ''Residential'' cat)"

subsection \<open>Core calculation\<close>

text \<open>
  The section \<open># Energy charge\<close> of \<open>calculate_bill\<close>: it yields the energy charge,
  the service charge and the energy lines appended to the breakdown so far.
\<close>

definition energy_section ::
  "price_table \<Rightarrow> price_table \<Rightarrow> string \<Rightarrow> real \<Rightarrow> error + (real \<times> real \<times> BillLine list)" where
  "energy_section rates services cat k =
    (if cat = ''Residential'' then
       (if k \<le> RES_LIFELINE_MAX then
          and_then (getitem rates ''RES_LIFELINE'') (\<lambda>r.
          and_then (getitem services ''Residential (Lifeline)'') (\<lambda>service.
            let energy = k * r in
            Inr (energy, service,
                 [\<lparr>label = ''Energy charge (Lifeline)'', amount = energy\<rparr>])))
        else
          (let kwh_b1 = min k BLOCK_300;
               kwh_b2 = max 0.0 (k - BLOCK_300) in
           and_then (getitem rates ''RES_B1'') (\<lambda>r1.
           and_then (getitem rates ''RES_B2'') (\<lambda>r2.
           and_then (getitem services ''Residential (Other)'') (\<lambda>service.
             let e1 = kwh_b1 * r1;
                 e2 = kwh_b2 * r2;
                 energy = e1 + e2 in
             Inr (energy, service,
                  [\<lparr>label = ''Energy charge block 1'', amount = e1\<rparr>] @
                  (if kwh_b2 > 0
                   then [\<lparr>label = ''Energy charge block 2'', amount = e2\<rparr>]
                   else [])))))))
     else if cat = ''Non-Residential'' then
       (let kwh_b1 = min k BLOCK_300;
            kwh_b2 = max 0.0 (k - BLOCK_300) in
        and_then (getitem rates ''NONRES_B1'') (\<lambda>r1.
        and_then (getitem rates ''NONRES_B2'') (\<lambda>r2.
        and_then (getitem services ''Non-Residential'') (\<lambda>service.
          let e1 = kwh_b1 * r1;
              e2 = kwh_b2 * r2;
              energy = e1 + e2 in
          Inr (energy, service,
               [\<lparr>label = ''Energy charge block 1'', amount = e1\<rparr>] @
               (if kwh_b2 > 0
                then [\<lparr>label = ''Energy charge block 2'', amount = e2\<rparr>]
                else []))))))
     else
       and_then (getitem rates ''SLT_LV'') (\<lambda>lv.
       and_then (getitem rates ''SLT_MV1'') (\<lambda>mv1.
       and_then (getitem rates ''SLT_MV2'') (\<lambda>mv2.
       and_then (getitem rates ''SLT_HV'') (\<lambda>hv.
       and_then (getitem rates ''SLT_HV'') (\<lambda>hv_mines.
         let rate_map = [''SLT-LV'' \<mapsto> lv,
                         ''SLT-MV1/HV'' \<mapsto> mv1,
                         ''SLT-MV2'' \<mapsto> mv2,
                         ''SLT-HV'' \<mapsto> hv,
                         ''SLT-HV MINES'' \<mapsto> hv_mines] in
         (case rate_map cat of
            None \<Rightarrow> Inl (ValueError ''Unsupported customer category.'')
          | Some rate \<Rightarrow>
              and_then (getitem services ''SLT'') (\<lambda>service.
                let energy = k * rate in
                Inr (energy, service,
                     [\<lparr>label = ''Energy charge'', amount = energy\<rparr>])))))))))"

definition calculate_bill :: "string \<Rightarrow> string \<Rightarrow> real \<Rightarrow> error + BillResult" where
  "calculate_bill yr cat k =
    (if yr \<notin> dom TARIFFS then Inl (ValueError ''Unsupported tariff year.'')
     else if k < 0 then Inl (ValueError ''kWh cannot be negative.'')
     else
       and_then (getitem TARIFFS yr) (\<lambda>tariff.
       and_then (getitem tariff ''rates'') (\<lambda>rates.
       and_then (getitem tariff ''service'') (\<lambda>services.
       and_then (energy_section rates services cat k) (\<lambda>(energy, service, lines).
         let levy' = LEVY_RATE * energy;
             tax' = (if is_taxable cat then TAX_RATE * (energy + service) else 0.0);
             total' = energy + service + levy' + tax' in
         Inr \<lparr>year = yr, category = cat, kwh = k,
              energy_charge = energy, service_charge = service,
              levy = levy', tax = tax', total = total',
              breakdown = lines @
                [\<lparr>label = ''Service charge'', amount = service\<rparr>,
                 \<lparr>label = ''Levies'', amount = levy'\<rparr>,
                 \<lparr>label = ''Taxes'', amount = tax'\<rparr>,
                 \<lparr>label = ''Total payable'', amount = total'\<rparr>]\<rparr>)))))"

subsection \<open>Reverse calculation helper (app.py)\<close>

text \<open>
  The \<open>while\<close> loop of \<open>invert_bill_to_kwh\<close>, with \<open>hi\<close> as its state. An
  exception of \<open>calculate_bill\<close> leaves the loop; a run that never ends is \<open>None\<close>.
\<close>

partial_function (option) expand_bracket ::
  "string \<Rightarrow> string \<Rightarrow> real \<Rightarrow> real \<Rightarrow> (error + real) option" where
  "expand_bracket yr cat target_total hi =
    (case calculate_bill yr cat hi of
       Inl e \<Rightarrow> Some (Inl e)
     | Inr b \<Rightarrow>
         if total b < target_total then
           (let hi' = hi * 2 in
            if hi' > 1000000
            then Some (Inl (RuntimeError ''Unable to estimate kWh for this bill amount.''))
            else expand_bracket yr cat target_total hi')
         else Some (Inr hi))"

text \<open>
  The \<open>for\<close> loop over \<open>range(max_iter)\<close>, with the iterations left and the bracket
  \<open>lo\<close>, \<open>hi\<close> as its state, followed by the final \<open>return (lo + hi) / 2\<close>.
\<close>

fun bisect :: "string \<Rightarrow> string \<Rightarrow> real \<Rightarrow> real \<Rightarrow> nat \<Rightarrow> real \<Rightarrow> real \<Rightarrow> error + real" where
  "bisect yr cat target_total tol 0 lo hi = Inr ((lo + hi) / 2)"
| "bisect yr cat target_total tol (Suc n) lo hi =
    (let mid = (lo + hi) / 2 in
     case calculate_bill yr cat mid of
       Inl e \<Rightarrow> Inl e
     | Inr b \<Rightarrow>
         (let diff = total b - target_total in
          if \<bar>diff\<bar> \<le> tol then Inr mid
          else if diff < 0 then bisect yr cat target_total tol n mid hi
          else bisect yr cat target_total tol n lo mid))"

definition invert_bill_to_kwh ::
  "string \<Rightarrow> string \<Rightarrow> real \<Rightarrow> real \<Rightarrow> int \<Rightarrow> (error + real) option" where
  "invert_bill_to_kwh yr cat target_total tol max_iter =
    (if target_total \<le> 0 then Some (Inr 0.0)
     else
       (case expand_bracket yr cat target_total 1.0 of
          None \<Rightarrow> None
        | Some (Inl e) \<Rightarrow> Some (Inl e)
        | Some (Inr hi) \<Rightarrow> Some (bisect yr cat target_total tol (nat max_iter) 0.0 hi)))"

text \<open>The call with the default arguments \<open>tol=0.01\<close> and \<open>max_iter=60\<close>.\<close>

definition invert_bill_to_kwh_default :: "string \<Rightarrow> string \<Rightarrow> real \<Rightarrow> (error + real) option" where
  "invert_bill_to_kwh_default yr cat target_total = invert_bill_to_kwh yr cat target_total 0.01 60"

text \<open>The years and the customer categories the form of app.py offers.\<close>

definition year_options :: "string list" where
  "year_options = [''2025'', ''2026'']"

definition category_options :: "string list" where
  "category_options =
    [''Residential'', ''Non-Residential'', ''SLT-LV'', ''SLT-MV1/HV'', ''SLT-MV2'',
     ''SLT-HV'', ''SLT-HV MINES'']"

subsection \<open>Reading the tariff table and a bill\<close>

text \<open>
  \<open>rate_of yr name\<close> is the subscript \<open>TARIFFS[yr]["rates"][name]\<close> and \<open>fee_of yr name\<close>
  is \<open>TARIFFS[yr]["service"][name]\<close>, each failing with \<open>KeyError\<close> on a missing key.
  \<open>rate\<close>, \<open>fee\<close> and \<open>total_of\<close> read the number out of a successful result; they
  are only used where the result is known to be one.
\<close>

definition rate_of :: "string \<Rightarrow> string \<Rightarrow> error + real" where
  "rate_of yr name =
    and_then (getitem TARIFFS yr) (\<lambda>tariff.
    and_then (getitem tariff ''rates'') (\<lambda>rates. getitem rates name))"

definition fee_of :: "string \<Rightarrow> string \<Rightarrow> error + real" where
  "fee_of yr name =
    and_then (getitem TARIFFS yr) (\<lambda>tariff.
    and_then (getitem tariff ''service'') (\<lambda>services. getitem services name))"

definition rate :: "string \<Rightarrow> string \<Rightarrow> real" where
  "rate yr name = (case rate_of yr name of Inr v \<Rightarrow> v | Inl e \<Rightarrow> 0)"

definition fee :: "string \<Rightarrow> string \<Rightarrow> real" where
  "fee yr name = (case fee_of yr name of Inr v \<Rightarrow> v | Inl e \<Rightarrow> 0)"

definition total_of :: "string \<Rightarrow> string \<Rightarrow> real \<Rightarrow> real" where
  "total_of yr cat k = (case calculate_bill yr cat k of Inr b \<Rightarrow> total b | Inl e \<Rightarrow> 0)"

text \<open>
  The tail of \<open>calculate_bill\<close> (levies, taxes, the four closing lines and the result),
  as a function of what the energy section produced, and the key of \<open>rates\<close> that
  \<open>rate_map\<close> gives a special-load-tariff category. Both serve the proofs below.
\<close>

definition finish :: "string \<Rightarrow> string \<Rightarrow> real \<Rightarrow> real \<Rightarrow> real \<Rightarrow> BillLine list \<Rightarrow> BillResult" where
  "finish yr cat k energy service lines =
     \<lparr>year = yr, category = cat, kwh = k,
      energy_charge = energy, service_charge = service,
      levy = LEVY_RATE * energy,
      tax = (if is_taxable cat then TAX_RATE * (energy + service) else 0),
      total = energy + service + LEVY_RATE * energy
              + (if is_taxable cat then TAX_RATE * (energy + service) else 0),
      breakdown = lines @
        [\<lparr>label = ''Service charge'', amount = service\<rparr>,
         \<lparr>label = ''Levies'', amount = LEVY_RATE * energy\<rparr>,
         \<lparr>label = ''Taxes'',
          amount = (if is_taxable cat then TAX_RATE * (energy + service) else 0)\<rparr>,
         \<lparr>label = ''Total payable'',
          amount = energy + service + LEVY_RATE * energy
              + (if is_taxable cat then TAX_RATE * (energy + service) else 0)\<rparr>]\<rparr>"

definition slt_key :: "string \<Rightarrow> string" where
  "slt_key cat =
    (if cat = ''SLT-LV'' then ''SLT_LV''
     else if cat = ''SLT-MV1/HV'' then ''SLT_MV1''
     else if cat = ''SLT-MV2'' then ''SLT_MV2''
     else ''SLT_HV'')"

section \<open>Auxiliary facts\<close>

subsection \<open>Results, dictionaries and the option lists\<close>

lemma and_then_Inr [simp]: "and_then (Inr x) f = f x"
  by (simp add: and_then_def)

lemma and_then_Inl [simp]: "and_then (Inl e) f = Inl e"
  by (simp add: and_then_def)

lemma getitem_upd [simp]:
  "getitem (d(a \<mapsto> v)) key = (if key = a then Inr v else getitem d key)"
  by (simp add: getitem_def)

lemma getitem_empty [simp]: "getitem Map.empty key = Inl (KeyError key)"
  by (simp add: getitem_def)

lemma dom_TARIFFS: "dom TARIFFS = {''2025'', ''2026''}"
  by (auto simp: TARIFFS_def split: if_splits)

lemma set_year_options: "yr \<in> set year_options \<longleftrightarrow> yr = ''2025'' \<or> yr = ''2026''"
  by (auto simp: year_options_def)

lemma year_options_dom: "set year_options = dom TARIFFS"
  by (auto simp: dom_TARIFFS year_options_def)

lemma set_category_options:
  "cat \<in> set category_options \<longleftrightarrow>
     cat = ''Residential'' \<or> cat = ''Non-Residential'' \<or>
     cat \<in> {''SLT-LV'', ''SLT-MV1/HV'', ''SLT-MV2'', ''SLT-HV'', ''SLT-HV MINES''}"
  by (auto simp: category_options_def)

lemmas table_defs = rate_def fee_def rate_of_def fee_of_def TARIFFS_def
  rates_2025_def service_2025_def rates_2026_def service_2026_def

lemmas calc_unfold = calculate_bill_def dom_TARIFFS energy_section_def finish_def
  RES_LIFELINE_MAX_def BLOCK_300_def Let_def table_defs

subsection \<open>The bill of each category in closed form\<close>

lemma calc_res:
  "yr \<in> set year_options \<Longrightarrow> 0 \<le> k \<Longrightarrow>
   calculate_bill yr ''Residential'' k =
     Inr (if k \<le> 30
          then finish yr ''Residential'' k (k * rate yr ''RES_LIFELINE'')
                 (fee yr ''Residential (Lifeline)'')
                 [\<lparr>label = ''Energy charge (Lifeline)'', amount = k * rate yr ''RES_LIFELINE''\<rparr>]
          else finish yr ''Residential'' k
                 (min k 300 * rate yr ''RES_B1'' + max 0 (k - 300) * rate yr ''RES_B2'')
                 (fee yr ''Residential (Other)'')
                 (\<lparr>label = ''Energy charge block 1'', amount = min k 300 * rate yr ''RES_B1''\<rparr> #
                  (if 0 < max 0 (k - 300)
                   then [\<lparr>label = ''Energy charge block 2'',
                          amount = max 0 (k - 300) * rate yr ''RES_B2''\<rparr>]
                   else [])))"
  unfolding set_year_options
  by (erule disjE; simp add: calc_unfold)

lemma calc_nonres:
  "yr \<in> set year_options \<Longrightarrow> 0 \<le> k \<Longrightarrow>
   calculate_bill yr ''Non-Residential'' k =
     Inr (finish yr ''Non-Residential'' k
            (min k 300 * rate yr ''NONRES_B1'' + max 0 (k - 300) * rate yr ''NONRES_B2'')
            (fee yr ''Non-Residential'')
            (\<lparr>label = ''Energy charge block 1'', amount = min k 300 * rate yr ''NONRES_B1''\<rparr> #
             (if 0 < max 0 (k - 300)
              then [\<lparr>label = ''Energy charge block 2'',
                     amount = max 0 (k - 300) * rate yr ''NONRES_B2''\<rparr>]
              else [])))"
  unfolding set_year_options
  by (erule disjE; simp add: calc_unfold)

lemma calc_slt:
  "yr \<in> set year_options \<Longrightarrow> 0 \<le> k \<Longrightarrow>
   cat \<in> {''SLT-LV'', ''SLT-MV1/HV'', ''SLT-MV2'', ''SLT-HV'', ''SLT-HV MINES''} \<Longrightarrow>
   calculate_bill yr cat k =
     Inr (finish yr cat k (k * rate yr (slt_key cat)) (fee yr ''SLT'')
            [\<lparr>label = ''Energy charge'', amount = k * rate yr (slt_key cat)\<rparr>])"
  unfolding set_year_options
  by (erule disjE; (elim insertE emptyE; simp add: calc_unfold slt_key_def))

lemma calc_unsupported:
  "yr \<in> set year_options \<Longrightarrow> 0 \<le> k \<Longrightarrow> cat \<notin> set category_options \<Longrightarrow>
   calculate_bill yr cat k = Inl (ValueError ''Unsupported customer category.'')"
  unfolding set_year_options
  by (erule disjE; simp add: calc_unfold category_options_def)

subsection \<open>The numbers of the table and the total as a function of the consumption\<close>

lemma rate_vals:
  "rate ''2025'' ''RES_LIFELINE'' = 804389 / 1000000"
  "rate ''2025'' ''RES_B1'' = 1822442 / 1000000"
  "rate ''2025'' ''RES_B2'' = 2408059 / 1000000"
  "rate ''2025'' ''NONRES_B1'' = 1645377 / 1000000"
  "rate ''2025'' ''NONRES_B2'' = 2044809 / 1000000"
  "rate ''2025'' ''SLT_LV'' = 2455597 / 1000000"
  "rate ''2025'' ''SLT_MV1'' = 1960119 / 1000000"
  "rate ''2025'' ''SLT_MV2'' = 1278861 / 1000000"
  "rate ''2025'' ''SLT_HV'' = 1960119 / 1000000"
  "rate ''2026'' ''RES_LIFELINE'' = 883739 / 1000000"
  "rate ''2026'' ''RES_B1'' = 2002218 / 1000000"
  "rate ''2026'' ''RES_B2'' = 2645604 / 1000000"
  "rate ''2026'' ''NONRES_B1'' = 1807687 / 1000000"
  "rate ''2026'' ''NONRES_B2'' = 2246521 / 1000000"
  "rate ''2026'' ''SLT_LV'' = 2697832 / 1000000"
  "rate ''2026'' ''SLT_MV1'' = 2153477 / 1000000"
  "rate ''2026'' ''SLT_MV2'' = 1342804 / 1000000"
  "rate ''2026'' ''SLT_HV'' = 2153477 / 1000000"
  by (simp_all add: table_defs)

lemma fee_vals:
  "fee ''2025'' ''Residential (Lifeline)'' = 213 / 100"
  "fee ''2025'' ''Residential (Other)'' = 107301 / 10000"
  "fee ''2025'' ''Non-Residential'' = 12428 / 1000"
  "fee ''2025'' ''SLT'' = 500"
  "fee ''2026'' ''Residential (Lifeline)'' = 213 / 100"
  "fee ''2026'' ''Residential (Other)'' = 10730886 / 1000000"
  "fee ''2026'' ''Non-Residential'' = 12428245 / 1000000"
  "fee ''2026'' ''SLT'' = 500"
  by (simp_all add: table_defs)

lemma total_of_res:
  "yr \<in> set year_options \<Longrightarrow> 0 \<le> k \<Longrightarrow>
   total_of yr ''Residential'' k =
     (if k \<le> 30 then 21 / 20 * (k * rate yr ''RES_LIFELINE'') + fee yr ''Residential (Lifeline)''
      else 21 / 20 * (min k 300 * rate yr ''RES_B1'' + max 0 (k - 300) * rate yr ''RES_B2'')
           + fee yr ''Residential (Other)'')"
  by (simp add: total_of_def calc_res finish_def is_taxable_def LEVY_RATE_def algebra_simps)

lemma total_of_nonres:
  "yr \<in> set year_options \<Longrightarrow> 0 \<le> k \<Longrightarrow>
   total_of yr ''Non-Residential'' k =
      5 / 4 * (min k 300 * rate yr ''NONRES_B1'' + max 0 (k - 300) * rate yr ''NONRES_B2'')
           + 6 / 5 * fee yr ''Non-Residential''"
  by (simp add: total_of_def calc_nonres finish_def is_taxable_def LEVY_RATE_def TAX_RATE_def
      algebra_simps)

lemma total_of_slt:
  "yr \<in> set year_options \<Longrightarrow> 0 \<le> k \<Longrightarrow>
   cat \<in> {''SLT-LV'', ''SLT-MV1/HV'', ''SLT-MV2'', ''SLT-HV'', ''SLT-HV MINES''} \<Longrightarrow>
   total_of yr cat k = 5 / 4 * (k * rate yr (slt_key cat)) + 6 / 5 * fee yr ''SLT''"
  by (auto simp add: total_of_def calc_slt finish_def is_taxable_def LEVY_RATE_def TAX_RATE_def
      algebra_simps)

subsection \<open>Every supported request is answered, and the shape of the answer\<close>

lemma calc_returns:
  assumes "yr \<in> set year_options" "cat \<in> set category_options" "0 \<le> k"
  shows "\<exists>b. calculate_bill yr cat k = Inr b"
  using assms(2) unfolding set_category_options
  by (elim disjE; simp add: calc_res calc_nonres calc_slt assms(1,3))

lemma calc_shape:
  assumes "calculate_bill yr cat k = Inr b"
  shows "levy b = LEVY_RATE * energy_charge b"
    and "tax b = (if is_taxable cat then TAX_RATE * (energy_charge b + service_charge b) else 0)"
    and "total b = energy_charge b + service_charge b + levy b + tax b"
    and "\<exists>lines. breakdown b = lines @
           [\<lparr>label = ''Service charge'', amount = service_charge b\<rparr>,
            \<lparr>label = ''Levies'', amount = levy b\<rparr>,
            \<lparr>label = ''Taxes'', amount = tax b\<rparr>,
            \<lparr>label = ''Total payable'', amount = total b\<rparr>]"
  using assms
  by (auto simp: calculate_bill_def and_then_def Let_def
           split: if_splits sum.splits prod.splits)

section \<open>The claims\<close>

text \<open>
  Claim C1. For every supported year, every recognized category and every consumption
  \<open>k \<ge> 0\<close>, \<open>calculate_bill\<close> returns a bill whose total is exactly the sum of energy
  charge, service charge, levy and tax, and the last line of its breakdown is labelled
  "Total payable" and carries that total.
\<close>

theorem calculate_bill_total_invariant:
  assumes "yr \<in> set year_options" "cat \<in> set category_options" "0 \<le> k"
  shows "\<exists>b. calculate_bill yr cat k = Inr b \<and>
             total b = energy_charge b + service_charge b + levy b + tax b \<and>
             breakdown b \<noteq> [] \<and>
             last (breakdown b) = \<lparr>label = ''Total payable'', amount = total b\<rparr>"
proof -
  from calc_returns[OF assms] obtain b where b: "calculate_bill yr cat k = Inr b" ..
  from calc_shape(4)[OF b] obtain lines where "breakdown b = lines @
           [\<lparr>label = ''Service charge'', amount = service_charge b\<rparr>,
            \<lparr>label = ''Levies'', amount = levy b\<rparr>,
            \<lparr>label = ''Taxes'', amount = tax b\<rparr>,
            \<lparr>label = ''Total payable'', amount = total b\<rparr>]" ..
  then have "breakdown b \<noteq> [] \<and>
             last (breakdown b) = \<lparr>label = ''Total payable'', amount = total b\<rparr>"
    by simp
  with b calc_shape(3)[OF b] show ?thesis by blast
qed

theorem calculate_bill_total_invariant_witness:
  "\<exists>b. calculate_bill ''2025'' ''Residential'' 20 = Inr b \<and>
       total b = energy_charge b + service_charge b + levy b + tax b \<and>
       breakdown b \<noteq> [] \<and>
       last (breakdown b) = \<lparr>label = ''Total payable'', amount = total b\<rparr>"
  using calculate_bill_total_invariant [of "''2025''" "''Residential''" 20]
  by (simp add: year_options_def category_options_def)

text \<open>
  Claim C2. For every supported year, recognized category and \<open>k \<ge> 0\<close>, the levy of the
  returned bill is 0.05 times its energy charge; its tax is 0 when the category name starts
  with "Residential" and 0.20 times (energy charge + service charge) otherwise.
\<close>

theorem calculate_bill_levy_tax:
  assumes "yr \<in> set year_options" "cat \<in> set category_options" "0 \<le> k"
  shows "\<exists>b. calculate_bill yr cat k = Inr b \<and>
             levy b = 0.05 * energy_charge b \<and>
             (prefix ''Residential'' cat \<longrightarrow> tax b = 0) \<and>
             (\<not> prefix ''Residential'' cat \<longrightarrow>
                tax b = 0.20 * (energy_charge b + service_charge b))"
proof -
  from calc_returns[OF assms] obtain b where b: "calculate_bill yr cat k = Inr b" ..
  have "levy b = 0.05 * energy_charge b \<and>
             (prefix ''Residential'' cat \<longrightarrow> tax b = 0) \<and>
             (\<not> prefix ''Residential'' cat \<longrightarrow>
                tax b = 0.20 * (energy_charge b + service_charge b))"
    using calc_shape(1,2)[OF b]
    by (simp add: LEVY_RATE_def TAX_RATE_def is_taxable_def)
  with b show ?thesis by blast
qed

theorem calculate_bill_levy_tax_witness:
  "(\<exists>b. calculate_bill ''2025'' ''Residential'' 20 = Inr b \<and>
        levy b = 0.05 * energy_charge b \<and> tax b = 0) \<and>
   (\<exists>b. calculate_bill ''2025'' ''SLT-LV'' 1000 = Inr b \<and>
        levy b = 0.05 * energy_charge b \<and>
        tax b = 0.20 * (energy_charge b + service_charge b))"
  using calculate_bill_levy_tax [of "''2025''" "''Residential''" 20]
        calculate_bill_levy_tax [of "''2025''" "''SLT-LV''" 1000]
  by (simp add: year_options_def category_options_def)

text \<open>
  Claim C5. \<open>calculate_bill\<close> fails on a year outside "2025", "2026" whatever the other
  arguments are; otherwise it fails on a negative consumption; otherwise it fails on a
  category outside the seven recognized ones; otherwise it returns a bill. A failure is an
  \<open>Inl\<close> value, so no bill comes with it. The source raises \<open>ValueError\<close> in all three
  cases and tells them apart by the message: "Unsupported tariff year." is the
  specification's ConfigurationError, "kWh cannot be negative." and "Unsupported customer
  category." are its two InvalidInputError cases.
\<close>

theorem calculate_bill_errors:
  "(yr \<notin> set year_options \<longrightarrow>
      calculate_bill yr cat k = Inl (ValueError ''Unsupported tariff year.'')) \<and>
   (yr \<in> set year_options \<and> k < 0 \<longrightarrow>
      calculate_bill yr cat k = Inl (ValueError ''kWh cannot be negative.'')) \<and>
   (yr \<in> set year_options \<and> 0 \<le> k \<and> cat \<notin> set category_options \<longrightarrow>
      calculate_bill yr cat k = Inl (ValueError ''Unsupported customer category.'')) \<and>
   (yr \<in> set year_options \<and> 0 \<le> k \<and> cat \<in> set category_options \<longrightarrow>
      (\<exists>b. calculate_bill yr cat k = Inr b))"
proof (intro conjI impI)
  assume "yr \<notin> set year_options"
  then show "calculate_bill yr cat k = Inl (ValueError ''Unsupported tariff year.'')"
    by (simp add: calculate_bill_def year_options_dom)
next
  assume "yr \<in> set year_options \<and> k < 0"
  then show "calculate_bill yr cat k = Inl (ValueError ''kWh cannot be negative.'')"
    by (simp add: calculate_bill_def year_options_dom)
next
  assume "yr \<in> set year_options \<and> 0 \<le> k \<and> cat \<notin> set category_options"
  then show "calculate_bill yr cat k = Inl (ValueError ''Unsupported customer category.'')"
    by (simp add: calc_unsupported)
next
  assume "yr \<in> set year_options \<and> 0 \<le> k \<and> cat \<in> set category_options"
  then show "\<exists>b. calculate_bill yr cat k = Inr b"
    by (simp add: calc_returns)
qed

theorem calculate_bill_errors_witness:
  "calculate_bill ''2099'' ''Residential'' 10 = Inl (ValueError ''Unsupported tariff year.'') \<and>
   calculate_bill ''2099'' ''Industrial'' (- 1) = Inl (ValueError ''Unsupported tariff year.'') \<and>
   calculate_bill ''2025'' ''Industrial'' (- 1) = Inl (ValueError ''kWh cannot be negative.'') \<and>
   calculate_bill ''2025'' ''Industrial'' 10 = Inl (ValueError ''Unsupported customer category.'') \<and>
   (\<exists>b. calculate_bill ''2026'' ''SLT-HV MINES'' 10 = Inr b)"
  using calculate_bill_errors [of "''2099''" "''Residential''" 10]
        calculate_bill_errors [of "''2099''" "''Industrial''" "- 1"]
        calculate_bill_errors [of "''2025''" "''Industrial''" "- 1"]
        calculate_bill_errors [of "''2025''" "''Industrial''" 10]
        calculate_bill_errors [of "''2026''" "''SLT-HV MINES''" 10]
  by (simp add: year_options_def category_options_def)

lemma rate_of_eq:
  "yr \<in> set year_options \<Longrightarrow>
   name \<in> {''RES_LIFELINE'', ''RES_B1'', ''RES_B2'', ''NONRES_B1'', ''NONRES_B2'',
            ''SLT_LV'', ''SLT_MV1'', ''SLT_MV2'', ''SLT_HV''} \<Longrightarrow>
   rate_of yr name = Inr (rate yr name)"
  unfolding set_year_options
  by (erule disjE; (elim insertE emptyE; simp add: table_defs))

lemma fee_of_eq:
  "yr \<in> set year_options \<Longrightarrow>
   name \<in> {''Residential (Lifeline)'', ''Residential (Other)'', ''Non-Residential'', ''SLT''} \<Longrightarrow>
   fee_of yr name = Inr (fee yr name)"
  unfolding set_year_options
  by (erule disjE; (elim insertE emptyE; simp add: table_defs))

lemma two_block_labels:
  assumes "yr \<in> set year_options" "0 \<le> k"
    and "(cat = ''Residential'' \<and> 30 < k) \<or> cat = ''Non-Residential''"
    and "calculate_bill yr cat k = Inr b"
  shows "map label (breakdown b) =
           ''Energy charge block 1'' #
           (if 300 < k then [''Energy charge block 2''] else []) @
           [''Service charge'', ''Levies'', ''Taxes'', ''Total payable'']"
  using assms by (auto simp: calc_res calc_nonres finish_def)

text \<open>
  Claim C3. For every supported year and \<open>k \<ge> 0\<close>, a "Residential" bill with
  \<open>k \<le> 30\<close> (30 included) charges the whole consumption at the lifeline rate, takes the
  residential-lifeline service charge and has the single energy line
  "Energy charge (Lifeline)"; with \<open>k > 30\<close> it charges \<open>min k 300\<close> at the block-1 rate
  and \<open>max 0 (k - 300)\<close> at the block-2 rate and takes the residential-other service charge.
\<close>

theorem residential_tiers:
  assumes "yr \<in> set year_options" "0 \<le> k"
  shows "\<exists>rl r1 r2 sl so b.
           rate_of yr ''RES_LIFELINE'' = Inr rl \<and>
           rate_of yr ''RES_B1'' = Inr r1 \<and>
           rate_of yr ''RES_B2'' = Inr r2 \<and>
           fee_of yr ''Residential (Lifeline)'' = Inr sl \<and>
           fee_of yr ''Residential (Other)'' = Inr so \<and>
           calculate_bill yr ''Residential'' k = Inr b \<and>
           (k \<le> 30 \<longrightarrow>
              energy_charge b = k * rl \<and> service_charge b = sl \<and>
              breakdown b =
                [\<lparr>label = ''Energy charge (Lifeline)'', amount = k * rl\<rparr>,
                 \<lparr>label = ''Service charge'', amount = sl\<rparr>,
                 \<lparr>label = ''Levies'', amount = levy b\<rparr>,
                 \<lparr>label = ''Taxes'', amount = tax b\<rparr>,
                 \<lparr>label = ''Total payable'', amount = total b\<rparr>]) \<and>
           (30 < k \<longrightarrow>
              energy_charge b = min k 300 * r1 + max 0 (k - 300) * r2 \<and>
              service_charge b = so)"
  apply (rule exI[of _ "rate yr ''RES_LIFELINE''"])
  apply (rule exI[of _ "rate yr ''RES_B1''"])
  apply (rule exI[of _ "rate yr ''RES_B2''"])
  apply (rule exI[of _ "fee yr ''Residential (Lifeline)''"])
  apply (rule exI[of _ "fee yr ''Residential (Other)''"])
  apply (simp add: rate_of_eq fee_of_eq calc_res assms finish_def)
  done

theorem residential_tiers_witness:
  "(\<exists>rl sl b. rate_of ''2025'' ''RES_LIFELINE'' = Inr rl \<and>
       fee_of ''2025'' ''Residential (Lifeline)'' = Inr sl \<and>
       calculate_bill ''2025'' ''Residential'' 30 = Inr b \<and>
       energy_charge b = 30 * rl \<and> service_charge b = sl \<and>
       breakdown b =
         [\<lparr>label = ''Energy charge (Lifeline)'', amount = 30 * rl\<rparr>,
          \<lparr>label = ''Service charge'', amount = sl\<rparr>,
          \<lparr>label = ''Levies'', amount = levy b\<rparr>,
          \<lparr>label = ''Taxes'', amount = tax b\<rparr>,
          \<lparr>label = ''Total payable'', amount = total b\<rparr>]) \<and>
   (\<exists>r1 r2 so b. rate_of ''2025'' ''RES_B1'' = Inr r1 \<and>
       rate_of ''2025'' ''RES_B2'' = Inr r2 \<and>
       fee_of ''2025'' ''Residential (Other)'' = Inr so \<and>
       calculate_bill ''2025'' ''Residential'' 30.01 = Inr b \<and>
       energy_charge b = 30.01 * r1 \<and> service_charge b = so)"
  using residential_tiers [of "''2025''" 30] residential_tiers [of "''2025''" "30.01"]
  by (auto simp: year_options_def)

text \<open>
  Claim C4. For every supported year, recognized category and \<open>k \<ge> 0\<close>, the breakdown
  ends with the lines "Service charge", "Levies", "Taxes", "Total payable" in that order,
  whatever their amounts; in the two-block categories (Residential above the lifeline,
  Non-Residential) the line "Energy charge block 2" is there exactly when the block-2
  consumption \<open>max 0 (k - 300)\<close> is positive, that is when \<open>k > 300\<close>.
\<close>

theorem breakdown_lines:
  assumes "yr \<in> set year_options" "cat \<in> set category_options" "0 \<le> k"
  shows "\<exists>b lines. calculate_bill yr cat k = Inr b \<and>
           breakdown b = lines @
             [\<lparr>label = ''Service charge'', amount = service_charge b\<rparr>,
              \<lparr>label = ''Levies'', amount = levy b\<rparr>,
              \<lparr>label = ''Taxes'', amount = tax b\<rparr>,
              \<lparr>label = ''Total payable'', amount = total b\<rparr>] \<and>
           ((cat = ''Residential'' \<and> RES_LIFELINE_MAX < k) \<or> cat = ''Non-Residential'' \<longrightarrow>
              (''Energy charge block 2'' \<in> set (map label (breakdown b))
                 \<longleftrightarrow> 0 < max 0 (k - BLOCK_300)) \<and>
              (''Energy charge block 2'' \<in> set (map label (breakdown b))
                 \<longleftrightarrow> 300 < k))"
proof -
  from calc_returns[OF assms] obtain b where b: "calculate_bill yr cat k = Inr b" ..
  from calc_shape(4)[OF b] obtain lines where l: "breakdown b = lines @
             [\<lparr>label = ''Service charge'', amount = service_charge b\<rparr>,
              \<lparr>label = ''Levies'', amount = levy b\<rparr>,
              \<lparr>label = ''Taxes'', amount = tax b\<rparr>,
              \<lparr>label = ''Total payable'', amount = total b\<rparr>]" ..
  have "(cat = ''Residential'' \<and> RES_LIFELINE_MAX < k) \<or> cat = ''Non-Residential'' \<longrightarrow>
              (''Energy charge block 2'' \<in> set (map label (breakdown b))
                 \<longleftrightarrow> 0 < max 0 (k - BLOCK_300)) \<and>
              (''Energy charge block 2'' \<in> set (map label (breakdown b))
                 \<longleftrightarrow> 300 < k)"
  proof
    assume c: "(cat = ''Residential'' \<and> RES_LIFELINE_MAX < k) \<or> cat = ''Non-Residential''"
    then have "(cat = ''Residential'' \<and> 30 < k) \<or> cat = ''Non-Residential''"
      by (simp add: RES_LIFELINE_MAX_def)
    from two_block_labels[OF assms(1,3) this b]
    show "(''Energy charge block 2'' \<in> set (map label (breakdown b))
                 \<longleftrightarrow> 0 < max 0 (k - BLOCK_300)) \<and>
              (''Energy charge block 2'' \<in> set (map label (breakdown b))
                 \<longleftrightarrow> 300 < k)"
      by (auto simp add: BLOCK_300_def max_def)
  qed
  with b l show ?thesis by blast
qed

theorem breakdown_lines_witness:
  "(\<exists>b lines. calculate_bill ''2025'' ''Non-Residential'' 300 = Inr b \<and>
       breakdown b = lines @
         [\<lparr>label = ''Service charge'', amount = service_charge b\<rparr>,
          \<lparr>label = ''Levies'', amount = levy b\<rparr>,
          \<lparr>label = ''Taxes'', amount = tax b\<rparr>,
          \<lparr>label = ''Total payable'', amount = total b\<rparr>] \<and>
       ''Energy charge block 2'' \<notin> set (map label (breakdown b))) \<and>
   (\<exists>b lines. calculate_bill ''2025'' ''Residential'' 300.01 = Inr b \<and>
       breakdown b = lines @
         [\<lparr>label = ''Service charge'', amount = service_charge b\<rparr>,
          \<lparr>label = ''Levies'', amount = levy b\<rparr>,
          \<lparr>label = ''Taxes'', amount = tax b\<rparr>,
          \<lparr>label = ''Total payable'', amount = total b\<rparr>] \<and>
       ''Energy charge block 2'' \<in> set (map label (breakdown b)))"
  using breakdown_lines [of "''2025''" "''Non-Residential''" 300]
        breakdown_lines [of "''2025''" "''Residential''" "300.01"]
  by (simp add: year_options_def category_options_def RES_LIFELINE_MAX_def, blast)

text \<open>
  Claim C8. For every supported year and \<open>k \<ge> 0\<close>, each special-load-tariff category is
  billed without tiers: the energy charge is \<open>k\<close> times the unit rate that \<open>rate_map\<close> gives
  the category, the service charge is the one flat SLT fee, and there is one energy line.
  "SLT-MV1/HV", "SLT-HV" and "SLT-HV MINES" get the same energy charge and the same total.
\<close>

theorem slt_pricing:
  assumes "yr \<in> set year_options" "0 \<le> k"
  shows "\<exists>lv mv1 mv2 hv s.
           rate_of yr ''SLT_LV'' = Inr lv \<and> rate_of yr ''SLT_MV1'' = Inr mv1 \<and>
           rate_of yr ''SLT_MV2'' = Inr mv2 \<and> rate_of yr ''SLT_HV'' = Inr hv \<and>
           fee_of yr ''SLT'' = Inr s \<and>
           (\<forall>(cat, r) \<in> {(''SLT-LV'', lv), (''SLT-MV1/HV'', mv1), (''SLT-MV2'', mv2),
                           (''SLT-HV'', hv), (''SLT-HV MINES'', hv)}.
              \<exists>b. calculate_bill yr cat k = Inr b \<and>
                  energy_charge b = k * r \<and> service_charge b = s \<and>
                  breakdown b =
                    [\<lparr>label = ''Energy charge'', amount = k * r\<rparr>,
                     \<lparr>label = ''Service charge'', amount = s\<rparr>,
                     \<lparr>label = ''Levies'', amount = levy b\<rparr>,
                     \<lparr>label = ''Taxes'', amount = tax b\<rparr>,
                     \<lparr>label = ''Total payable'', amount = total b\<rparr>]) \<and>
           (\<exists>b1 b2 b3.
              calculate_bill yr ''SLT-MV1/HV'' k = Inr b1 \<and>
              calculate_bill yr ''SLT-HV'' k = Inr b2 \<and>
              calculate_bill yr ''SLT-HV MINES'' k = Inr b3 \<and>
              energy_charge b1 = energy_charge b2 \<and> energy_charge b2 = energy_charge b3 \<and>
              total b1 = total b2 \<and> total b2 = total b3)"
proof -
  have eq: "rate yr ''SLT_MV1'' = rate yr ''SLT_HV''"
    using assms(1) unfolding set_year_options by (auto simp: rate_vals)
  show ?thesis
    apply (rule exI[of _ "rate yr ''SLT_LV''"])
    apply (rule exI[of _ "rate yr ''SLT_MV1''"])
    apply (rule exI[of _ "rate yr ''SLT_MV2''"])
    apply (rule exI[of _ "rate yr ''SLT_HV''"])
    apply (rule exI[of _ "fee yr ''SLT''"])
    apply (simp add: rate_of_eq fee_of_eq calc_slt assms finish_def slt_key_def eq is_taxable_def)
    done
qed

theorem slt_pricing_witness:
  "\<exists>b1 b2 b3.
      calculate_bill ''2026'' ''SLT-MV1/HV'' 1000 = Inr b1 \<and>
      calculate_bill ''2026'' ''SLT-HV'' 1000 = Inr b2 \<and>
      calculate_bill ''2026'' ''SLT-HV MINES'' 1000 = Inr b3 \<and>
      energy_charge b1 = energy_charge b2 \<and> energy_charge b2 = energy_charge b3 \<and>
      total b1 = total b2 \<and> total b2 = total b3"
  using slt_pricing [of "''2026''" 1000]
  by (auto simp: year_options_def)

subsection \<open>The total grows with the consumption, at most four units per kWh\<close>

lemma total_of_mono_res:
  assumes "yr \<in> set year_options" "0 \<le> k1" "k1 \<le> k2"
  shows "total_of yr ''Residential'' k1 \<le> total_of yr ''Residential'' k2"
proof -
  have k2: "0 \<le> k2" using assms by simp
  show ?thesis
    unfolding total_of_res[OF assms(1,2)] total_of_res[OF assms(1) k2]
    using assms unfolding set_year_options
    by (elim disjE; (auto simp: rate_vals fee_vals min_def max_def split: if_splits; argo))
qed

lemma total_of_mono_nonres:
  assumes "yr \<in> set year_options" "0 \<le> k1" "k1 \<le> k2"
  shows "total_of yr ''Non-Residential'' k1 \<le> total_of yr ''Non-Residential'' k2"
proof -
  have k2: "0 \<le> k2" using assms by simp
  show ?thesis
    unfolding total_of_nonres[OF assms(1,2)] total_of_nonres[OF assms(1) k2]
    using assms unfolding set_year_options
    by (elim disjE; (auto simp: rate_vals fee_vals min_def max_def split: if_splits; argo))
qed

lemma total_of_mono_slt:
  assumes "yr \<in> set year_options" "0 \<le> k1" "k1 \<le> k2"
    and "cat \<in> {''SLT-LV'', ''SLT-MV1/HV'', ''SLT-MV2'', ''SLT-HV'', ''SLT-HV MINES''}"
  shows "total_of yr cat k1 \<le> total_of yr cat k2"
proof -
  have k2: "0 \<le> k2" using assms by simp
  show ?thesis
    unfolding total_of_slt[OF assms(1,2,4)] total_of_slt[OF assms(1) k2 assms(4)]
    using assms unfolding set_year_options
    by (elim disjE insertE emptyE; simp add: rate_vals slt_key_def)
qed

lemma total_of_mono:
  assumes "yr \<in> set year_options" "cat \<in> set category_options" "0 \<le> k1" "k1 \<le> k2"
  shows "total_of yr cat k1 \<le> total_of yr cat k2"
  using assms(2) unfolding set_category_options
  by (elim disjE; simp add: total_of_mono_res total_of_mono_nonres total_of_mono_slt assms(1,3,4))

lemma total_of_strict:
  assumes "yr \<in> set year_options" "cat \<in> set category_options" "0 \<le> k1" "k1 < k2"
  shows "total_of yr cat k1 < total_of yr cat k2"
proof -
  have k2: "0 \<le> k2" using assms by simp
  have "cat = ''Residential'' \<or> cat = ''Non-Residential'' \<or>
        cat \<in> {''SLT-LV'', ''SLT-MV1/HV'', ''SLT-MV2'', ''SLT-HV'', ''SLT-HV MINES''}"
    using assms(2) unfolding set_category_options .
  then show ?thesis
  proof (elim disjE)
    assume 1: "cat = ''Residential''"
    show ?thesis
      unfolding 1 total_of_res[OF assms(1,3)] total_of_res[OF assms(1) k2]
      using assms(1,3,4) unfolding set_year_options
      by (elim disjE; (auto simp: rate_vals fee_vals min_def max_def split: if_splits; argo))
  next
    assume 2: "cat = ''Non-Residential''"
    show ?thesis
      unfolding 2 total_of_nonres[OF assms(1,3)] total_of_nonres[OF assms(1) k2]
      using assms(1,3,4) unfolding set_year_options
      by (elim disjE; (auto simp: rate_vals fee_vals min_def max_def split: if_splits; argo))
  next
    assume 3: "cat \<in> {''SLT-LV'', ''SLT-MV1/HV'', ''SLT-MV2'', ''SLT-HV'', ''SLT-HV MINES''}"
    show ?thesis
      unfolding total_of_slt[OF assms(1,3) 3] total_of_slt[OF assms(1) k2 3]
      using assms(1,3,4) 3 unfolding set_year_options
      by (elim disjE insertE emptyE; simp add: rate_vals slt_key_def)
  qed
qed

lemma total_of_slope:
  assumes "yr \<in> set year_options" "cat \<in> set category_options" "0 \<le> x" "x \<le> y"
    and "cat = ''Residential'' \<longrightarrow> y \<le> 30 \<or> 30 < x"
  shows "total_of yr cat y - total_of yr cat x \<le> 4 * (y - x)"
proof -
  have y: "0 \<le> y" using assms by simp
  have "cat = ''Residential'' \<or> cat = ''Non-Residential'' \<or>
        cat \<in> {''SLT-LV'', ''SLT-MV1/HV'', ''SLT-MV2'', ''SLT-HV'', ''SLT-HV MINES''}"
    using assms(2) unfolding set_category_options .
  then show ?thesis
  proof (elim disjE)
    assume 1: "cat = ''Residential''"
    then have side: "y \<le> 30 \<or> 30 < x" using assms(5) by simp
    show ?thesis
      unfolding 1 total_of_res[OF assms(1,3)] total_of_res[OF assms(1) y]
      using assms(1,3,4) side unfolding set_year_options
      by (elim disjE; (auto simp: rate_vals fee_vals min_def max_def split: if_splits; argo))
  next
    assume 2: "cat = ''Non-Residential''"
    show ?thesis
      unfolding 2 total_of_nonres[OF assms(1,3)] total_of_nonres[OF assms(1) y]
      using assms(1,3,4) unfolding set_year_options
      by (elim disjE; (auto simp: rate_vals fee_vals min_def max_def split: if_splits; argo))
  next
    assume 3: "cat \<in> {''SLT-LV'', ''SLT-MV1/HV'', ''SLT-MV2'', ''SLT-HV'', ''SLT-HV MINES''}"
    show ?thesis
      unfolding total_of_slt[OF assms(1,3) 3] total_of_slt[OF assms(1) y 3]
      using assms(1,3,4) 3 unfolding set_year_options
      by (elim disjE insertE emptyE; simp add: rate_vals slt_key_def field_simps)
  qed
qed

lemma calc_total:
  assumes "yr \<in> set year_options" "cat \<in> set category_options" "0 \<le> k"
  shows "\<exists>b. calculate_bill yr cat k = Inr b \<and> total b = total_of yr cat k"
  using calc_returns[OF assms] by (auto simp: total_of_def)

text \<open>
  Claim C6. For a fixed supported year and recognized category the total is non-decreasing
  in the consumption: for \<open>0 \<le> k1 \<le> k2\<close> both bills exist and the total of the first is
  at most the total of the second.
\<close>

theorem total_monotone:
  assumes "yr \<in> set year_options" "cat \<in> set category_options" "0 \<le> k1" "k1 \<le> k2"
  shows "\<exists>b1 b2. calculate_bill yr cat k1 = Inr b1 \<and> calculate_bill yr cat k2 = Inr b2 \<and>
                 total b1 \<le> total b2"
proof -
  have k2: "0 \<le> k2" using assms by simp
  from calc_total[OF assms(1,2,3)] obtain b1
    where b1: "calculate_bill yr cat k1 = Inr b1" "total b1 = total_of yr cat k1" by blast
  from calc_total[OF assms(1,2) k2] obtain b2
    where b2: "calculate_bill yr cat k2 = Inr b2" "total b2 = total_of yr cat k2" by blast
  from total_of_mono[OF assms] b1 b2 show ?thesis by auto
qed

theorem total_monotone_witness:
  "\<exists>b1 b2. calculate_bill ''2025'' ''Residential'' 30 = Inr b1 \<and>
           calculate_bill ''2025'' ''Residential'' 30.01 = Inr b2 \<and>
           total b1 \<le> total b2"
  using total_monotone [of "''2025''" "''Residential''" 30 "30.01"]
  by (simp add: year_options_def category_options_def)

subsection \<open>The two loops of the inversion, for any arguments\<close>

lemma calc_Inr_D:
  assumes "calculate_bill yr cat k = Inr b"
  shows "yr \<in> set year_options" and "cat \<in> set category_options" and "0 \<le> k"
proof -
  show y: "yr \<in> set year_options"
    using assms by (simp add: calculate_bill_def year_options_dom split: if_splits)
  show k: "0 \<le> k"
    using assms by (simp add: calculate_bill_def split: if_splits)
  show "cat \<in> set category_options"
    using assms calc_unsupported[OF y k, of cat] by auto
qed

lemma pow2_le_bound: "n \<le> 19 \<Longrightarrow> (2::real) ^ n \<le> 524288"
  using power_increasing[of n 19 "2::real"] by simp

lemma expand_pow:
  assumes "n \<le> 19"
  shows "\<exists>res. expand_bracket yr cat t (2 ^ n) = Some res \<and>
           (\<forall>h. res = Inr h \<longrightarrow> (\<exists>m. n \<le> m \<and> m \<le> 19 \<and> h = 2 ^ m))"
  using assms
proof (induction "19 - n" arbitrary: n)
  case 0
  then have n: "n = 19" by simp
  show ?case
    unfolding n
    by (subst expand_bracket.simps) (auto split: sum.splits simp: Let_def)
next
  case (Suc d)
  then have n: "Suc n \<le> 19" and d: "d = 19 - Suc n" by simp_all
  from Suc.hyps(1)[OF d n] obtain res where res:
    "expand_bracket yr cat t (2 ^ Suc n) = Some res"
    "\<forall>h. res = Inr h \<longrightarrow> (\<exists>m. Suc n \<le> m \<and> m \<le> 19 \<and> h = 2 ^ m)" by blast
  have small: "\<not> (2::real) ^ n * 2 > 1000000"
    using pow2_le_bound[OF n] by simp
  show ?case
  proof (cases "calculate_bill yr cat (2 ^ n)")
    case (Inl e)
    then show ?thesis by (subst expand_bracket.simps) simp
  next
    case (Inr b)
    show ?thesis
    proof (cases "total b < t")
      case True
      have "expand_bracket yr cat t (2 ^ n) = Some res"
        using Inr True small res(1) by (subst expand_bracket.simps) (simp add: Let_def mult.commute)
      moreover have "\<forall>h. res = Inr h \<longrightarrow> (\<exists>m. n \<le> m \<and> m \<le> 19 \<and> h = 2 ^ m)"
        using res(2) by (auto dest: Suc_leD)
      ultimately show ?thesis by blast
    next
      case False
      have "expand_bracket yr cat t (2 ^ n) = Some (Inr (2 ^ n))"
        using Inr False by (subst expand_bracket.simps) simp
      then show ?thesis using Suc.prems by auto
    qed
  qed
qed

lemma bisect_range:
  "lo \<le> hi \<Longrightarrow> bisect yr cat t tol n lo hi = Inr r \<Longrightarrow> lo \<le> r \<and> r \<le> hi"
proof (induction n arbitrary: lo hi)
  case 0
  then show ?case by auto
next
  case (Suc n)
  let ?mid = "(lo + hi) / 2"
  have m: "lo \<le> ?mid" "?mid \<le> hi" using Suc.prems(1) by simp_all
  from Suc.prems(2) show ?case
    using Suc.IH[OF m(1)] Suc.IH[OF m(2)] m
    by (auto simp: Let_def split: sum.splits if_splits)
qed

subsection \<open>The two loops of the inversion, on a supported year and category\<close>

lemma total_of_pos:
  assumes "yr \<in> set year_options" "cat \<in> set category_options" "0 \<le> k"
  shows "0 < total_of yr cat k"
proof -
  have "0 < total_of yr cat 0"
    using assms(2) unfolding set_category_options
  proof (elim disjE)
    assume "cat = ''Residential''"
    then show ?thesis using assms(1) unfolding set_year_options
      by (auto simp: total_of_res year_options_def fee_vals)
  next
    assume "cat = ''Non-Residential''"
    then show ?thesis using assms(1) unfolding set_year_options
      by (auto simp: total_of_nonres year_options_def fee_vals)
  next
    assume c: "cat \<in> {''SLT-LV'', ''SLT-MV1/HV'', ''SLT-MV2'', ''SLT-HV'', ''SLT-HV MINES''}"
    show ?thesis using assms(1) unfolding total_of_slt[OF assms(1) order_refl c] set_year_options
      by (auto simp: fee_vals)
  qed
  also have "\<dots> \<le> total_of yr cat k" by (rule total_of_mono[OF assms(1,2) order_refl assms(3)])
  finally show ?thesis .
qed

lemma bisect_Suc:
  assumes "yr \<in> set year_options" "cat \<in> set category_options" "0 \<le> lo" "lo \<le> hi"
  shows "bisect yr cat t tol (Suc n) lo hi =
          (if \<bar>total_of yr cat ((lo + hi) / 2) - t\<bar> \<le> tol then Inr ((lo + hi) / 2)
           else if total_of yr cat ((lo + hi) / 2) - t < 0
                then bisect yr cat t tol n ((lo + hi) / 2) hi
                else bisect yr cat t tol n lo ((lo + hi) / 2))"
proof -
  have "0 \<le> (lo + hi) / 2" using assms by simp
  from calc_total[OF assms(1,2) this] show ?thesis by (auto simp: Let_def)
qed

lemma expand_step:
  assumes "yr \<in> set year_options" "cat \<in> set category_options" "0 \<le> hi"
  shows "expand_bracket yr cat t hi =
          (if total_of yr cat hi < t
           then (if hi * 2 > 1000000
                 then Some (Inl (RuntimeError ''Unable to estimate kWh for this bill amount.''))
                 else expand_bracket yr cat t (hi * 2))
           else Some (Inr hi))"
  using calc_total[OF assms]
  by (subst expand_bracket.simps) (auto simp: Let_def)

lemma expand_supported:
  assumes "yr \<in> set year_options" "cat \<in> set category_options"
    and "n \<le> 19" "t \<le> total_of yr cat (2 ^ 19)"
  shows "\<exists>m. n \<le> m \<and> m \<le> 19 \<and>
           expand_bracket yr cat t (2 ^ n) = Some (Inr (2 ^ m)) \<and>
           t \<le> total_of yr cat (2 ^ m) \<and>
           (\<forall>i. n \<le> i \<and> i < m \<longrightarrow> total_of yr cat (2 ^ i) < t)"
  using assms(3)
proof (induction "19 - n" arbitrary: n)
  case 0
  then have n: "n = 19" by simp
  have "expand_bracket yr cat t (2 ^ 19) = Some (Inr (2 ^ 19))"
    using assms(4) by (subst expand_step[OF assms(1,2)]) auto
  then show ?case unfolding n using assms(4) by auto
next
  case (Suc d)
  then have n: "Suc n \<le> 19" and d: "d = 19 - Suc n" by simp_all
  have small: "\<not> (2::real) ^ n * 2 > 1000000"
    using pow2_le_bound[OF n] by simp
  show ?case
  proof (cases "total_of yr cat (2 ^ n) < t")
    case False
    have "expand_bracket yr cat t (2 ^ n) = Some (Inr (2 ^ n))"
      using False by (subst expand_step[OF assms(1,2)]) auto
    with False Suc.prems show ?thesis by (intro exI[of _ n]) auto
  next
    case True
    from Suc.hyps(1)[OF d n] obtain m where m:
      "Suc n \<le> m" "m \<le> 19" "expand_bracket yr cat t (2 ^ Suc n) = Some (Inr (2 ^ m))"
      "t \<le> total_of yr cat (2 ^ m)"
      "\<forall>i. Suc n \<le> i \<and> i < m \<longrightarrow> total_of yr cat (2 ^ i) < t" by blast
    have "expand_bracket yr cat t (2 ^ n) = Some (Inr (2 ^ m))"
      using True small m(3) by (subst expand_step[OF assms(1,2)]) (auto simp: mult.commute)
    moreover have "\<forall>i. n \<le> i \<and> i < m \<longrightarrow> total_of yr cat (2 ^ i) < t"
    proof (intro allI impI)
      fix i assume i: "n \<le> i \<and> i < m"
      show "total_of yr cat (2 ^ i) < t"
      proof (cases "i = n")
        case True then show ?thesis using \<open>total_of yr cat (2 ^ n) < t\<close> by simp
      next
        case False
        then have "Suc n \<le> i \<and> i < m" using i by simp
        with m(5) show ?thesis by blast
      qed
    qed
    ultimately show ?thesis using m(1,2,4) by (intro exI[of _ m]) auto
  qed
qed

lemma expand_fail:
  assumes "yr \<in> set year_options" "cat \<in> set category_options"
    and "n \<le> 19" "total_of yr cat (2 ^ 19) < t"
  shows "expand_bracket yr cat t (2 ^ n) =
           Some (Inl (RuntimeError ''Unable to estimate kWh for this bill amount.''))"
  using assms(3)
proof (induction "19 - n" arbitrary: n)
  case 0
  then have n: "n = 19" by simp
  show ?case unfolding n using assms(4)
    by (subst expand_step[OF assms(1,2)]) auto
next
  case (Suc d)
  then have n: "Suc n \<le> 19" and d: "d = 19 - Suc n" by simp_all
  have small: "\<not> (2::real) ^ n * 2 > 1000000"
    using pow2_le_bound[OF n] by simp
  have "(2::real) ^ n \<le> 2 ^ 19" using Suc.prems by (intro power_increasing) auto
  from total_of_mono[OF assms(1,2) _ this] assms(4)
  have lt: "total_of yr cat (2 ^ n) < t" by simp
  show ?case
    using lt small Suc.hyps(1)[OF d n]
    by (subst expand_step[OF assms(1,2)]) (auto simp: mult.commute)
qed

lemma expand_exact:
  assumes "yr \<in> set year_options" "cat \<in> set category_options" "n \<le> 19"
    and "\<forall>i<n. total_of yr cat (2 ^ i) < t" "t \<le> total_of yr cat (2 ^ n)"
  shows "expand_bracket yr cat t 1 = Some (Inr (2 ^ n))"
proof -
  have "(2::real) ^ n \<le> 2 ^ 19" using assms(3) by (intro power_increasing) auto
  from total_of_mono[OF assms(1,2) _ this] assms(5)
  have "t \<le> total_of yr cat (2 ^ 19)" by simp
  from expand_supported[OF assms(1,2) _ this, of 0] obtain m where m:
    "m \<le> 19" "expand_bracket yr cat t (2 ^ 0) = Some (Inr (2 ^ m))"
    "t \<le> total_of yr cat (2 ^ m)"
    "\<forall>i. i < m \<longrightarrow> total_of yr cat (2 ^ i) < t" by auto
  have "m = n"
  proof (rule ccontr)
    assume "m \<noteq> n"
    then consider "m < n" | "n < m" by linarith
    then show False
    proof cases
      case 1 with assms(4) m(3) show False by force
    next
      case 2 with m(4) assms(5) show False by force
    qed
  qed
  with m(2) show ?thesis by simp
qed

subsection \<open>Concrete brackets\<close>

lemma total_res_2025:
  "0 \<le> k \<Longrightarrow> total_of ''2025'' ''Residential'' k =
     (if k \<le> 30 then 21 / 20 * (k * (804389 / 1000000)) + 213 / 100
      else 21 / 20 * (min k 300 * (1822442 / 1000000) + max 0 (k - 300) * (2408059 / 1000000))
           + 107301 / 10000)"
  by (simp add: total_of_res year_options_def rate_vals fee_vals)

lemma bracket_50:
  "\<forall>i<5. total_of ''2025'' ''Residential'' (2 ^ i) < 50"
  "50 \<le> total_of ''2025'' ''Residential'' (2 ^ 5)"
proof -
  show "50 \<le> total_of ''2025'' ''Residential'' (2 ^ 5)"
    by (simp add: total_res_2025)
  show "\<forall>i<5. total_of ''2025'' ''Residential'' (2 ^ i) < 50"
  proof (intro allI impI)
    fix i :: nat assume "i < 5"
    then have "(2::real) ^ i \<le> 2 ^ 4" by (intro power_increasing) auto
    then have "total_of ''2025'' ''Residential'' (2 ^ i) \<le> total_of ''2025'' ''Residential'' (2 ^ 4)"
      by (intro total_of_mono) (auto simp: year_options_def category_options_def)
    also have "\<dots> < 50" by (simp add: total_res_2025)
    finally show "total_of ''2025'' ''Residential'' (2 ^ i) < 50" .
  qed
qed

lemma beyond_bound: "total_of ''2025'' ''Residential'' (2 ^ 19) < 10000000"
  by (simp add: total_res_2025)

text \<open>
  Claim C9. \<open>invert_bill_to_kwh\<close> returns 0 at once for every target \<open>t \<le> 0\<close>: it does
  so for every year and category, also for those on which any call of \<open>calculate_bill\<close>
  would raise, so no call is made. For \<open>t > 0\<close> on a supported year and category the upper
  bound starts at 1 and is doubled while the total at it is below the target: the loop
  stops at the first power of two \<open>2 ^ n\<close>, \<open>n \<le> 19\<close>, whose total reaches the target, and
  the bisection starts from the bracket \<open>[0, 2 ^ n]\<close>. When the total at \<open>2 ^ 19 = 524288\<close>
  is still below the target (then so are the totals at all smaller bounds, the total being
  monotone), the next doubling exceeds 1,000,000 and the call fails with
  \<open>RuntimeError\<close> "Unable to estimate kWh for this bill amount.", the specification's
  SearchBoundError. \<open>total_of yr cat k\<close> is the total of \<open>calculate_bill yr cat k\<close>.
\<close>

theorem invert_shortcut_and_bracket:
  "(t \<le> 0 \<longrightarrow> invert_bill_to_kwh yr cat t tol max_iter = Some (Inr 0)) \<and>
   (yr \<in> set year_options \<and> cat \<in> set category_options \<and> 0 < t \<and> n \<le> 19 \<and>
    (\<forall>i<n. total_of yr cat (2 ^ i) < t) \<and> t \<le> total_of yr cat (2 ^ n) \<longrightarrow>
      expand_bracket yr cat t 1 = Some (Inr (2 ^ n)) \<and>
      invert_bill_to_kwh yr cat t tol max_iter =
        Some (bisect yr cat t tol (nat max_iter) 0 (2 ^ n))) \<and>
   (yr \<in> set year_options \<and> cat \<in> set category_options \<and>
    total_of yr cat (2 ^ 19) < t \<longrightarrow>
      expand_bracket yr cat t 1 =
        Some (Inl (RuntimeError ''Unable to estimate kWh for this bill amount.'')) \<and>
      invert_bill_to_kwh yr cat t tol max_iter =
        Some (Inl (RuntimeError ''Unable to estimate kWh for this bill amount.'')))"
proof (intro conjI impI)
  assume "t \<le> 0"
  then show "invert_bill_to_kwh yr cat t tol max_iter = Some (Inr 0)"
    by (simp add: invert_bill_to_kwh_def)
next
  assume a: "yr \<in> set year_options \<and> cat \<in> set category_options \<and> 0 < t \<and> n \<le> 19 \<and>
    (\<forall>i<n. total_of yr cat (2 ^ i) < t) \<and> t \<le> total_of yr cat (2 ^ n)"
  then have e: "expand_bracket yr cat t 1 = Some (Inr (2 ^ n))"
    by (intro expand_exact) auto
  then show "expand_bracket yr cat t 1 = Some (Inr (2 ^ n))" .
  from a e show "invert_bill_to_kwh yr cat t tol max_iter =
        Some (bisect yr cat t tol (nat max_iter) 0 (2 ^ n))"
    by (simp add: invert_bill_to_kwh_def)
next
  assume a: "yr \<in> set year_options \<and> cat \<in> set category_options \<and>
    total_of yr cat (2 ^ 19) < t"
  then have "expand_bracket yr cat t (2 ^ 0) =
        Some (Inl (RuntimeError ''Unable to estimate kWh for this bill amount.''))"
    by (intro expand_fail) auto
  then have e: "expand_bracket yr cat t 1 =
        Some (Inl (RuntimeError ''Unable to estimate kWh for this bill amount.''))" by simp
  then show "expand_bracket yr cat t 1 =
        Some (Inl (RuntimeError ''Unable to estimate kWh for this bill amount.''))" .
  have "0 < total_of yr cat (2 ^ 19)" using a by (intro total_of_pos) auto
  with a have "0 < t" by linarith
  with e show "invert_bill_to_kwh yr cat t tol max_iter =
        Some (Inl (RuntimeError ''Unable to estimate kWh for this bill amount.''))"
    by (simp add: invert_bill_to_kwh_def)
qed

theorem invert_shortcut_and_bracket_witness:
  "invert_bill_to_kwh ''2099'' ''No such category'' 0 0.01 60 = Some (Inr 0) \<and>
   invert_bill_to_kwh ''2025'' ''Residential'' (- 5) 0.01 60 = Some (Inr 0) \<and>
   expand_bracket ''2025'' ''Residential'' 50 1 = Some (Inr (2 ^ 5)) \<and>
   invert_bill_to_kwh ''2025'' ''Residential'' 50 0.01 60 =
     Some (bisect ''2025'' ''Residential'' 50 0.01 (nat 60) 0 (2 ^ 5)) \<and>
   invert_bill_to_kwh ''2025'' ''Residential'' 10000000 0.01 60 =
     Some (Inl (RuntimeError ''Unable to estimate kWh for this bill amount.''))"
  using invert_shortcut_and_bracket [of 0 "''2099''" "''No such category''" "0.01" 60 0]
        invert_shortcut_and_bracket [of "- 5" "''2025''" "''Residential''" "0.01" 60 0]
        invert_shortcut_and_bracket [of 50 "''2025''" "''Residential''" "0.01" 60 5]
        invert_shortcut_and_bracket [of 10000000 "''2025''" "''Residential''" "0.01" 60 0]
        bracket_50 beyond_bound
  by (simp add: year_options_def category_options_def)

end
